theory Spec2Isabelle
  imports Main "HOL-Library.Multiset" "HOL-Library.AList"
begin

section \<open>The loyalty cog: achievements, signals, backend and tracker\<close>

text \<open>
  A shallow embedding of \<^verbatim>\<open>src/loyalty/loyalty.py\<close>. Python objects that the source mutates
  in place are passed and returned explicitly; every \<^verbatim>\<open>raise\<close> of the source (and every
  exception that the interpreter raises for it, such as \<^verbatim>\<open>KeyError\<close> or \<^verbatim>\<open>NameError\<close>) is a
  value of the type \<open>error\<close>. Python's unbounded integers are \<open>int\<close>, its strings are
  \<open>string\<close>, its insertion-ordered dictionaries are association lists read with
  \<open>map_of\<close> and written with \<open>AList.update\<close> (an existing key keeps its place, a new key goes
  to the end).
\<close>

subsection \<open>Goals and achievements\<close>

text \<open>
  A goal is the dictionary \<^verbatim>\<open>{'level': ..., 'name': ..., 'description': ...}\<close>.
\<close>

record goal =
  level :: int
  name :: string
  description :: string

text \<open>
  The two ways \<^verbatim>\<open>evaluate\<close> is defined in the source: \<^verbatim>\<open>Achievement.evaluate\<close> and
  \<^verbatim>\<open>DiscordAchievement.evaluate\<close>.
\<close>

datatype evaluator = Evaluate_base | Evaluate_discord

text \<open>
  An achievement class (a definition): \<open>cls_id\<close> stands for the identity of the class
  object, \<open>cls_name\<close> for \<^verbatim>\<open>__name__\<close>; the other fields are the class attributes that the
  code below reads, and which \<^verbatim>\<open>evaluate\<close> the class has. Two classes are the same class when
  the records are equal.
\<close>

record achievement_class =
  cls_id :: nat
  cls_name :: string
  category :: string
  cls_keywords :: "string list"
  cls_goals :: "goal list"
  cls_evaluate :: evaluator

text \<open>The base class \<^verbatim>\<open>Achievement\<close> and the class \<^verbatim>\<open>DiscordAchievement\<close> with its default goals.\<close>

definition Achievement :: achievement_class where
  "Achievement =
     \<lparr>cls_id = 0, cls_name = ''Achievement'', category = ''achievements'', cls_keywords = [],
      cls_goals = [], cls_evaluate = Evaluate_base\<rparr>"

definition default_goals :: "goal list" where
  "default_goals =
     [\<lparr>level = 1, name = ''My First Creation'', description = ''and it's so beautiful....''\<rparr>,
      \<lparr>level = 100, name = ''Green thumb'', description = ''You've created at least 5 objects!''\<rparr>,
      \<lparr>level = 1000, name = ''Clever thinker'',
        description = ''More than 10 new creations are all because of you.''\<rparr>,
      \<lparr>level = 10000, name = ''Almost an adult'', description = ''Just about 18.''\<rparr>,
      \<lparr>level = 100000, name = ''True Inspiration'',
        description = ''Or did you steal your ideas for these 15 items? Hmm?''\<rparr>,
      \<lparr>level = 200000, name = ''Divine Creator'',
        description = ''All the world bows to your divine inspiration.''\<rparr>]"

text \<open>
  \<^verbatim>\<open>DiscordAchievement\<close>: the goals are those saved in \<^verbatim>\<open>settings.json\<close>, sorted by level,
  when that file holds any, and the default goals otherwise.
\<close>

definition DiscordAchievement :: "goal list option \<Rightarrow> achievement_class" where
  "DiscordAchievement saved_goals =
     \<lparr>cls_id = 1, cls_name = ''DiscordAchievement'', category = ''chat'', cls_keywords = [],
      cls_goals = (case saved_goals of Some gs \<Rightarrow> sort_key level gs | None \<Rightarrow> default_goals),
      cls_evaluate = Evaluate_discord\<rparr>"

text \<open>
  An instance: its class, the counter \<^verbatim>\<open>_current\<close> and its own \<^verbatim>\<open>goals\<close> attribute.
\<close>

record achievement =
  cls :: achievement_class
  p_current :: int
  goals :: "goal list"

text \<open>\<^verbatim>\<open>__init__(self, current=0)\<close>: the goals of the class, sorted by level (Python's sort is stable, as \<open>sort_key\<close> is).\<close>

definition Achievement_init :: "achievement_class \<Rightarrow> int \<Rightarrow> achievement" where
  "Achievement_init c current0 = \<lparr>cls = c, p_current = current0, goals = sort_key level (cls_goals c)\<rparr>"

definition achieved :: "achievement \<Rightarrow> goal list" where
  "achieved a = filter (\<lambda>g. p_current a \<ge> level g) (goals a)"

definition unachieved :: "achievement \<Rightarrow> goal list" where
  "unachieved a = filter (\<lambda>g. p_current a < level g) (goals a)"

text \<open>The property \<^verbatim>\<open>current\<close>: the counter and the first goal not reached yet, if any.\<close>

definition current :: "achievement \<Rightarrow> int \<times> goal option" where
  "current a =
     (case filter (\<lambda>g. p_current a < level g) (goals a) of
        [] \<Rightarrow> (p_current a, None)
      | g # _ \<Rightarrow> (p_current a, Some g))"

definition current_name :: "achievement \<Rightarrow> string option" where
  "current_name a =
     (case filter (\<lambda>g. p_current a < level g) (goals a) of
        [] \<Rightarrow> None
      | g # _ \<Rightarrow> Some (name g))"

definition current_description :: "achievement \<Rightarrow> string option" where
  "current_description a =
     (case filter (\<lambda>g. p_current a < level g) (goals a) of
        [] \<Rightarrow> None
      | g # _ \<Rightarrow> Some (description g))"

definition add_goal :: "achievement \<Rightarrow> int \<Rightarrow> string \<Rightarrow> string \<Rightarrow> achievement" where
  "add_goal a l n d =
     (let result = goals a @ [\<lparr>level = l, name = n, description = d\<rparr>]
      in a\<lparr>goals := sort_key level result\<rparr>)"

definition remove_goal :: "achievement \<Rightarrow> string \<Rightarrow> int \<Rightarrow> achievement" where
  "remove_goal a n l =
     (let result = filter (\<lambda>g. \<not> (name g = n \<or> level g = l)) (goals a)
      in a\<lparr>goals := sort_key level result\<rparr>)"

definition increment :: "achievement \<Rightarrow> int \<Rightarrow> achievement" where
  "increment a amount = a\<lparr>p_current := p_current a + amount\<rparr>"

definition set_level :: "achievement \<Rightarrow> int \<Rightarrow> achievement" where
  "set_level a l = a\<lparr>p_current := l\<rparr>"

text \<open>
  \<^verbatim>\<open>evaluate\<close>, dispatched on the class of the instance. The base class ignores its
  arguments; \<^verbatim>\<open>DiscordAchievement.evaluate(good_points, bad_points)\<close> adds the first and
  subtracts the second. Both return the achieved goals.
\<close>

definition evaluate :: "achievement \<Rightarrow> int \<Rightarrow> int \<Rightarrow> goal list \<times> achievement" where
  "evaluate a good_points bad_points =
     (case cls_evaluate (cls a) of
        Evaluate_base \<Rightarrow> (achieved a, a)
      | Evaluate_discord \<Rightarrow>
          (let a' = a\<lparr>p_current := p_current a + good_points - bad_points\<rparr>
           in (achieved a', a')))"

subsection \<open>Exceptions\<close>

text \<open>
  The exception classes that the modelled code raises: \<^verbatim>\<open>ValueError\<close>, \<^verbatim>\<open>AlreadyRegistered\<close>
  and \<^verbatim>\<open>NotRegistered\<close> by a \<^verbatim>\<open>raise\<close> statement, the others by the interpreter (a missing
  dictionary key, an undefined name, an index out of range, a missing attribute). The
  messages are left out.
\<close>

datatype error =
  ValueError | AlreadyRegistered | NotRegistered | KeyError | NameError | IndexError
  | AttributeError

subsection \<open>Signals\<close>

text \<open>
  What \<^verbatim>\<open>_make_id\<close> looks at in its argument: \<^verbatim>\<open>None\<close>, an object with an identity, or
  a bound method (an object with \<^verbatim>\<open>__func__\<close>), given by the identities of \<^verbatim>\<open>__self__\<close> and
  \<^verbatim>\<open>__func__\<close>. \<open>NoneId\<close> is the integer \<^verbatim>\<open>id(None)\<close>, which no other object has.
\<close>

datatype target = PyNone | PyObject nat | BoundMethod nat nat

datatype ident = NoneId | Id nat | IdPair nat nat

fun make_id :: "target \<Rightarrow> ident" where
  "make_id (BoundMethod self_id func_id) = IdPair self_id func_id"
| "make_id (PyObject n) = Id n"
| "make_id PyNone = NoneId"

definition NONE_ID :: ident where
  "NONE_ID = make_id PyNone"

text \<open>
  What a call of a receiver does: it returns a value or raises. \<open>Exception\<close> stands
  for an instance of a subclass of \<^verbatim>\<open>Exception\<close>, \<open>BaseException\<close> for any other raised
  object (\<^verbatim>\<open>KeyboardInterrupt\<close>, \<^verbatim>\<open>SystemExit\<close>), which \<^verbatim>\<open>except Exception\<close> does not catch.
\<close>

datatype raised = Exception string | BaseException string

datatype 'v outcome = Return 'v | Raise raised

text \<open>
  A receiver is a callable: \<open>target\<close> is what \<^verbatim>\<open>_make_id\<close> sees of it, \<open>body\<close> is its
  behaviour when called with the sender and the named arguments in a state of the world
  \<open>'w\<close> (everything the callable can read and change); the call gives an outcome and
  the next state of the world.
\<close>

record ('a, 'w, 'v) callable =
  target :: target
  body :: "target \<Rightarrow> 'a \<Rightarrow> 'w \<Rightarrow> 'v outcome \<times> 'w"

text \<open>
  The first component of a lookup key is the \<^verbatim>\<open>dispatch_uid\<close> when one is given (and is
  not empty), the identity of the receiver otherwise.
\<close>

datatype key = Uid string | Receiver_id ident

record ('a, 'w, 'v) signal =
  receivers :: "((key \<times> ident) \<times> ('a, 'w, 'v) callable) list"

definition Signal_init :: "('a, 'w, 'v) signal" where
  "Signal_init = \<lparr>receivers = []\<rparr>"

definition lookup_key :: "target \<Rightarrow> target \<Rightarrow> string option \<Rightarrow> key \<times> ident" where
  "lookup_key receiver_target sender dispatch_uid =
     (case dispatch_uid of
        Some (c # cs) \<Rightarrow> (Uid (c # cs), make_id sender)
      | _ \<Rightarrow> (Receiver_id (make_id receiver_target), make_id sender))"

definition connect ::
  "('a, 'w, 'v) signal \<Rightarrow> ('a, 'w, 'v) callable \<Rightarrow> target \<Rightarrow> string option \<Rightarrow> ('a, 'w, 'v) signal"
where
  "connect s receiver sender dispatch_uid =
     (let k = lookup_key (target receiver) sender dispatch_uid
      in if list_ex (\<lambda>(r_key, _). r_key = k) (receivers s) then s
         else s\<lparr>receivers := receivers s @ [(k, receiver)]\<rparr>)"

text \<open>\<^verbatim>\<open>_receivers(sender)\<close>: the receivers connected for this sender or for any sender.\<close>

definition receivers_for :: "('a, 'w, 'v) signal \<Rightarrow> target \<Rightarrow> ('a, 'w, 'v) callable list" where
  "receivers_for s sender =
     (let senderkey = make_id sender
      in map snd (filter (\<lambda>((_, r_senderkey), _). r_senderkey = NONE_ID \<or> r_senderkey = senderkey)
                   (receivers s)))"

text \<open>
  A response of \<^verbatim>\<open>send_robust\<close>: the value a receiver returned, or the error instance it
  raised.
\<close>

datatype 'v response = Value 'v | Error raised

text \<open>
  The loop of \<^verbatim>\<open>send_robust\<close>: each receiver is called in the state of the world that the
  call before it left. An exception that is not an \<^verbatim>\<open>Exception\<close> leaves the loop and the
  function (\<open>Inl\<close>).
\<close>

fun send_robust_loop ::
  "('a, 'w, 'v) callable list \<Rightarrow> target \<Rightarrow> 'a \<Rightarrow> 'w \<Rightarrow> (('a, 'w, 'v) callable \<times> 'v response) list
    \<Rightarrow> (raised + (('a, 'w, 'v) callable \<times> 'v response) list) \<times> 'w"
where
  "send_robust_loop [] sender named w responses = (Inr responses, w)"
| "send_robust_loop (receiver # rest) sender named w responses =
     (case body receiver sender named w of
        (Return v, w') \<Rightarrow>
          send_robust_loop rest sender named w' (responses @ [(receiver, Value v)])
      | (Raise (Exception e), w') \<Rightarrow>
          send_robust_loop rest sender named w' (responses @ [(receiver, Error (Exception e))])
      | (Raise (BaseException e), w') \<Rightarrow> (Inl (BaseException e), w'))"

definition send_robust ::
  "('a, 'w, 'v) signal \<Rightarrow> target \<Rightarrow> 'a \<Rightarrow> 'w
    \<Rightarrow> (raised + (('a, 'w, 'v) callable \<times> 'v response) list) \<times> 'w"
where
  "send_robust s sender named w = send_robust_loop (receivers_for s sender) sender named w []"

subsection \<open>The signal check of the tracker\<close>

text \<open>
  The three module-level signals are \<^verbatim>\<open>level_increased\<close>, \<^verbatim>\<open>goal_achieved\<close> and
  \<^verbatim>\<open>highest_level_achieved\<close>. An emission is one call of \<^verbatim>\<open>send_robust\<close> on one of them,
  with its named arguments \<^verbatim>\<open>tracked_id\<close>, \<^verbatim>\<open>achievement\<close> and, for \<^verbatim>\<open>goal_achieved\<close>,
  \<^verbatim>\<open>goals\<close>; the source discards the responses.
\<close>

datatype emission =
  Level_increased string achievement
  | Goal_achieved string achievement "goal list"
  | Highest_level_achieved string achievement

text \<open>What \<^verbatim>\<open>_check_signals\<close> returns: the list \<^verbatim>\<open>new_goals\<close>, or \<^verbatim>\<open>False\<close>.\<close>

datatype check_result = New_goals "goal list" | PyFalse

definition check_signals ::
  "string \<Rightarrow> achievement \<Rightarrow> int \<Rightarrow> goal list \<Rightarrow> emission list \<times> check_result"
where
  "check_signals tracked_id a old_level old_achieved =
     (let cur_level = fst (current a);
          sent1 = (if old_level < cur_level then [Level_increased tracked_id a] else [])
      in if old_achieved \<noteq> achieved a then
           (let new_goals = filter (\<lambda>g. g \<notin> set old_achieved) (achieved a);
                sent2 = [Goal_achieved tracked_id a new_goals];
                sent3 = (if unachieved a = [] then [Highest_level_achieved tracked_id a] else [])
            in (sent1 @ sent2 @ sent3, New_goals new_goals))
         else (sent1, PyFalse))"

subsection \<open>The backend\<close>

text \<open>
  A leaf of the JSON file, and what \<^verbatim>\<open>accounts\<close> holds under a definition name: an
  \<^verbatim>\<open>Achievement\<close> instance that the backend created, or a value as \<^verbatim>\<open>dataIO.load_json\<close> read
  it from the file.
\<close>

datatype json = JInt int | JStr string

datatype slot = Instance achievement | Loaded json

type_synonym 'a dict = "(string \<times> 'a) list"

text \<open>
  The backend: the dictionary \<^verbatim>\<open>accounts\<close> (server id, user id, definition name), and the
  content of the file at \<^verbatim>\<open>file_path\<close>, which \<^verbatim>\<open>dataIO.save_json\<close> replaces.
\<close>

record backend =
  accounts :: "slot dict dict dict"
  stored :: "json dict dict dict"

record user =
  user_id :: string
  server_id :: string

definition load_json :: "json dict dict dict \<Rightarrow> slot dict dict dict" where
  "load_json f =
     map (\<lambda>(key_server, value_server).
       (key_server, map (\<lambda>(key_user, value_user).
         (key_user, map (\<lambda>(key_achievement, v). (key_achievement, Loaded v)) value_user))
         value_server)) f"

text \<open>\<^verbatim>\<open>__init__\<close>: \<^verbatim>\<open>self.accounts = dataIO.load_json(file_path)\<close>, and nothing else.\<close>

definition AchievementBackend_init :: "json dict dict dict \<Rightarrow> backend" where
  "AchievementBackend_init f = \<lparr>accounts = load_json f, stored = f\<rparr>"

text \<open>
  \<^verbatim>\<open>_save_loyalty\<close>. The innermost loop stores \<^verbatim>\<open>key_achievement[0]\<close>, the first character
  of the definition name (an \<^verbatim>\<open>IndexError\<close> when the name is empty), under the name; it does
  not read \<^verbatim>\<open>value_achievement\<close>.
\<close>

fun save_achievements :: "slot dict \<Rightarrow> json dict \<Rightarrow> error + json dict" where
  "save_achievements [] to_save = Inr to_save"
| "save_achievements ((key_achievement, value_achievement) # rest) to_save =
     (case key_achievement of
        [] \<Rightarrow> Inl IndexError
      | c # _ \<Rightarrow> save_achievements rest (AList.update key_achievement (JStr [c]) to_save))"

fun save_users :: "slot dict dict \<Rightarrow> json dict dict \<Rightarrow> error + json dict dict" where
  "save_users [] to_save = Inr to_save"
| "save_users ((key_user, value_user) # rest) to_save =
     (case save_achievements value_user [] of
        Inl e \<Rightarrow> Inl e
      | Inr d \<Rightarrow> save_users rest (AList.update key_user d to_save))"

fun save_servers :: "slot dict dict dict \<Rightarrow> json dict dict dict \<Rightarrow> error + json dict dict dict" where
  "save_servers [] to_save = Inr to_save"
| "save_servers ((key_server, value_server) # rest) to_save =
     (case save_users value_server [] of
        Inl e \<Rightarrow> Inl e
      | Inr d \<Rightarrow> save_servers rest (AList.update key_server d to_save))"

definition save_loyalty :: "backend \<Rightarrow> error option \<times> backend" where
  "save_loyalty b =
     (case save_servers (accounts b) [] of
        Inl e \<Rightarrow> (Some e, b)
      | Inr to_save \<Rightarrow> (None, b\<lparr>stored := to_save\<rparr>))"

text \<open>
  \<^verbatim>\<open>_load_loyalty(file_path, achievement)\<close>, given the content \<open>f\<close> of the file. The loops
  run over the dictionaries that were loaded, while \<^verbatim>\<open>self.accounts[key_server]\<close> and
  \<^verbatim>\<open>self.accounts[key_server][key_user]\<close> are replaced by empty dictionaries before the
  inner loop reads \<^verbatim>\<open>self.accounts[key_server][key_user][key_achievement]._current\<close>.
\<close>

definition lookup3 :: "slot dict dict dict \<Rightarrow> string \<Rightarrow> string \<Rightarrow> string \<Rightarrow> error + slot" where
  "lookup3 accs key_server key_user key_achievement =
     (case map_of accs key_server of
        None \<Rightarrow> Inl KeyError
      | Some users \<Rightarrow>
          (case map_of users key_user of
             None \<Rightarrow> Inl KeyError
           | Some achs \<Rightarrow>
               (case map_of achs key_achievement of
                  None \<Rightarrow> Inl KeyError
                | Some s \<Rightarrow> Inr s)))"

definition store2 :: "'a dict dict \<Rightarrow> string \<Rightarrow> string \<Rightarrow> 'a \<Rightarrow> 'a dict dict" where
  "store2 d k1 k2 v =
     AList.update k1 (AList.update k2 v (case map_of d k1 of None \<Rightarrow> [] | Some d1 \<Rightarrow> d1)) d"

definition store3 :: "'a dict dict dict \<Rightarrow> string \<Rightarrow> string \<Rightarrow> string \<Rightarrow> 'a \<Rightarrow> 'a dict dict dict" where
  "store3 d k1 k2 k3 v =
     AList.update k1 (store2 (case map_of d k1 of None \<Rightarrow> [] | Some d1 \<Rightarrow> d1) k2 k3 v) d"

fun load_achievements ::
  "slot dict dict dict \<Rightarrow> string \<Rightarrow> string \<Rightarrow> slot dict \<Rightarrow> achievement_class
    \<Rightarrow> error option \<times> slot dict dict dict"
where
  "load_achievements accs key_server key_user [] c = (None, accs)"
| "load_achievements accs key_server key_user ((key_achievement, value_achievement) # rest) c =
     (case lookup3 accs key_server key_user key_achievement of
        Inl e \<Rightarrow> (Some e, accs)
      | Inr (Loaded _) \<Rightarrow> (Some AttributeError, accs)
      | Inr (Instance i) \<Rightarrow>
          load_achievements
            (store3 accs key_server key_user key_achievement
               (Instance (Achievement_init c (p_current i))))
            key_server key_user rest c)"

fun load_users ::
  "slot dict dict dict \<Rightarrow> string \<Rightarrow> slot dict dict \<Rightarrow> achievement_class
    \<Rightarrow> error option \<times> slot dict dict dict"
where
  "load_users accs key_server [] c = (None, accs)"
| "load_users accs key_server ((key_user, value_user) # rest) c =
     (case load_achievements (store2 accs key_server key_user []) key_server key_user value_user c of
        (Some e, accs') \<Rightarrow> (Some e, accs')
      | (None, accs') \<Rightarrow> load_users accs' key_server rest c)"

fun load_servers ::
  "slot dict dict dict \<Rightarrow> slot dict dict dict \<Rightarrow> achievement_class
    \<Rightarrow> error option \<times> slot dict dict dict"
where
  "load_servers accs [] c = (None, accs)"
| "load_servers accs ((key_server, value_server) # rest) c =
     (case load_users (AList.update key_server [] accs) key_server value_server c of
        (Some e, accs') \<Rightarrow> (Some e, accs')
      | (None, accs') \<Rightarrow> load_servers accs' rest c)"

definition load_loyalty :: "backend \<Rightarrow> json dict dict dict \<Rightarrow> achievement_class \<Rightarrow> error option \<times> backend" where
  "load_loyalty b f c =
     (case load_servers (load_json f) (load_json f) c of
        (e, accs) \<Rightarrow> (e, b\<lparr>accounts := accs\<rparr>))"

text \<open>
  The first lines of \<^verbatim>\<open>achievement_for_id\<close> and \<^verbatim>\<open>set_level_for_id\<close> of the backend: the
  dictionaries of the server and of the user are created when missing, and an instance
  is created under the name of the class when the user has none.
\<close>

definition ensure_slot :: "slot dict dict dict \<Rightarrow> user \<Rightarrow> achievement_class \<Rightarrow> int \<Rightarrow> slot dict dict dict" where
  "ensure_slot accs u c current0 =
     (let accs1 = (if map_of accs (server_id u) = None then AList.update (server_id u) [] accs else accs);
          users = (case map_of accs1 (server_id u) of None \<Rightarrow> [] | Some d \<Rightarrow> d);
          accs2 = (if map_of users (user_id u) = None then store2 accs1 (server_id u) (user_id u) [] else accs1);
          users2 = (case map_of accs2 (server_id u) of None \<Rightarrow> [] | Some d \<Rightarrow> d);
          achs = (case map_of users2 (user_id u) of None \<Rightarrow> [] | Some d \<Rightarrow> d)
      in if map_of achs (cls_name c) = None
         then store3 accs2 (server_id u) (user_id u) (cls_name c) (Instance (Achievement_init c current0))
         else accs2)"

definition backend_achievement_for_id :: "backend \<Rightarrow> user \<Rightarrow> achievement_class \<Rightarrow> (error + slot) \<times> backend" where
  "backend_achievement_for_id b u c =
     (let b1 = b\<lparr>accounts := ensure_slot (accounts b) u c 0\<rparr>
      in case save_loyalty b1 of
           (Some e, b2) \<Rightarrow> (Inl e, b2)
         | (None, b2) \<Rightarrow> (lookup3 (accounts b2) (server_id u) (user_id u) (cls_name c), b2))"

definition backend_set_level_for_id :: "backend \<Rightarrow> user \<Rightarrow> achievement_class \<Rightarrow> int \<Rightarrow> error option \<times> backend" where
  "backend_set_level_for_id b u c l =
     (let b1 = b\<lparr>accounts := ensure_slot (accounts b) u c l\<rparr>
      in case lookup3 (accounts b1) (server_id u) (user_id u) (cls_name c) of
           Inl e \<Rightarrow> (Some e, b1)
         | Inr (Loaded _) \<Rightarrow> (Some AttributeError, b1)
         | Inr (Instance i) \<Rightarrow>
             save_loyalty
               (b1\<lparr>accounts :=
                  store3 (accounts b1) (server_id u) (user_id u) (cls_name c) (Instance (set_level i l))\<rparr>))"

text \<open>
  \<^verbatim>\<open>remove_id(self, user)\<close>. \<^verbatim>\<open>self.accounts[user.server.id]\<close> is a \<^verbatim>\<open>KeyError\<close> when the
  server has no dictionary. In the \<^verbatim>\<open>del\<close> statement the name \<^verbatim>\<open>server\<close> is neither a local
  variable of the function nor a name of the module, so evaluating it is a \<^verbatim>\<open>NameError\<close>,
  raised before anything is deleted and before \<^verbatim>\<open>_save_loyalty\<close>.
\<close>

definition backend_remove_id :: "backend \<Rightarrow> user \<Rightarrow> error option \<times> backend" where
  "backend_remove_id b u =
     (case map_of (accounts b) (server_id u) of
        None \<Rightarrow> (Some KeyError, b)
      | Some users \<Rightarrow>
          (if map_of users (user_id u) \<noteq> None then (Some NameError, b)
           else save_loyalty b))"

subsection \<open>The tracker\<close>

record tracker =
  registry :: "achievement_class list"
  backend :: backend

definition AchievementTracker_init :: "json dict dict dict \<Rightarrow> tracker" where
  "AchievementTracker_init f = \<lparr>registry = [], backend = AchievementBackend_init f\<rparr>"

text \<open>
  The argument of \<^verbatim>\<open>register\<close> and \<^verbatim>\<open>unregister\<close>: one class that is a subclass of
  \<^verbatim>\<open>Achievement\<close>, or an iterable of classes.
\<close>

datatype achievement_or_iterable = One achievement_class | Many "achievement_class list"

fun register_loop :: "tracker \<Rightarrow> achievement_class list \<Rightarrow> error option \<times> tracker" where
  "register_loop t [] = (None, t)"
| "register_loop t (a # rest) =
     (if category a = [] then (Some ValueError, t)
      else if a \<in> set (registry t) then (Some AlreadyRegistered, t)
      else if a \<noteq> Achievement then register_loop (t\<lparr>registry := registry t @ [a]\<rparr>) rest
      else register_loop t rest)"

definition register :: "tracker \<Rightarrow> achievement_or_iterable \<Rightarrow> error option \<times> tracker" where
  "register t arg = register_loop t (case arg of One a \<Rightarrow> [a] | Many as \<Rightarrow> as)"

fun unregister_loop :: "tracker \<Rightarrow> achievement_class list \<Rightarrow> error option \<times> tracker" where
  "unregister_loop t [] = (None, t)"
| "unregister_loop t (a # rest) =
     (if a \<notin> set (registry t) then (Some NotRegistered, t)
      else unregister_loop (t\<lparr>registry := remove1 a (registry t)\<rparr>) rest)"

definition unregister :: "tracker \<Rightarrow> achievement_or_iterable \<Rightarrow> error option \<times> tracker" where
  "unregister t arg = unregister_loop t (case arg of One a \<Rightarrow> [a] | Many as \<Rightarrow> as)"

definition is_registered :: "tracker \<Rightarrow> achievement_class \<Rightarrow> bool" where
  "is_registered t a = (a \<in> set (registry t))"

text \<open>
  How a caller names a definition in \<^verbatim>\<open>achievement_for_id\<close>: by an instance, by a class,
  or by the name of a class.
\<close>

datatype achievement_ref = By_instance achievement | By_class achievement_class | By_name string

definition ref_name :: "achievement_ref \<Rightarrow> string" where
  "ref_name r =
     (case r of
        By_instance i \<Rightarrow> cls_name (cls i)
      | By_class c \<Rightarrow> cls_name c
      | By_name n \<Rightarrow> n)"

definition achievement_for_id :: "tracker \<Rightarrow> user \<Rightarrow> achievement_ref \<Rightarrow> (error + slot) \<times> tracker" where
  "achievement_for_id t u r =
     (case filter (\<lambda>c. cls_name c = ref_name r) (registry t) of
        [] \<Rightarrow> (Inl NotRegistered, t)
      | c # _ \<Rightarrow>
          (case backend_achievement_for_id (backend t) u c of
             (res, b) \<Rightarrow> (res, t\<lparr>backend := b\<rparr>)))"

text \<open>
  \<^verbatim>\<open>increment\<close>, \<^verbatim>\<open>evaluate\<close> and \<^verbatim>\<open>set_level\<close> of the tracker are the same sequence around
  one call on the instance: fetch the instance, keep its level and a copy of its achieved
  goals, call the method, \<^verbatim>\<open>set_level_for_id\<close> on the backend with the class of the
  instance, \<^verbatim>\<open>_check_signals\<close>. The instance is the object that \<^verbatim>\<open>accounts\<close> holds under the
  name that was looked up, so the call changes that entry. A value loaded from the file
  has no attribute \<^verbatim>\<open>current\<close>.
\<close>

datatype mutation = Increment int | Evaluate int int | Set_level int

definition apply_mutation :: "achievement \<Rightarrow> mutation \<Rightarrow> goal list \<times> achievement" where
  "apply_mutation a m =
     (case m of
        Increment amount \<Rightarrow> ([], increment a amount)
      | Evaluate good_points bad_points \<Rightarrow> evaluate a good_points bad_points
      | Set_level l \<Rightarrow> ([], set_level a l))"

definition tracker_mutation ::
  "tracker \<Rightarrow> user \<Rightarrow> achievement_ref \<Rightarrow> mutation
    \<Rightarrow> (error + (goal list \<times> emission list \<times> check_result)) \<times> tracker"
where
  "tracker_mutation t u r m =
     (case achievement_for_id t u r of
        (Inl e, t1) \<Rightarrow> (Inl e, t1)
      | (Inr (Loaded _), t1) \<Rightarrow> (Inl AttributeError, t1)
      | (Inr (Instance a), t1) \<Rightarrow>
          (let cur_level = fst (current a);
               achieved0 = achieved a;
               (result, a') = apply_mutation a m;
               b1 = (backend t1)\<lparr>accounts :=
                      store3 (accounts (backend t1)) (server_id u) (user_id u) (ref_name r) (Instance a')\<rparr>
           in case backend_set_level_for_id b1 u (cls a') (fst (current a')) of
                (Some e, b2) \<Rightarrow> (Inl e, t1\<lparr>backend := b2\<rparr>)
              | (None, b2) \<Rightarrow>
                  (case check_signals (user_id u) a' cur_level achieved0 of
                     (sent, checked) \<Rightarrow> (Inr (result, sent, checked), t1\<lparr>backend := b2\<rparr>))))"

text \<open>
  The three methods with what each returns beside the emitted signals: \<^verbatim>\<open>increment\<close> the
  result of \<^verbatim>\<open>_check_signals\<close>, \<^verbatim>\<open>evaluate\<close> the result of the instance's \<^verbatim>\<open>evaluate\<close>,
  \<^verbatim>\<open>set_level\<close> nothing.
\<close>

definition tracker_increment ::
  "tracker \<Rightarrow> user \<Rightarrow> achievement_ref \<Rightarrow> int \<Rightarrow> (error + (check_result \<times> emission list)) \<times> tracker"
where
  "tracker_increment t u r amount =
     (case tracker_mutation t u r (Increment amount) of
        (Inl e, t') \<Rightarrow> (Inl e, t')
      | (Inr (_, sent, checked), t') \<Rightarrow> (Inr (checked, sent), t'))"

definition tracker_evaluate ::
  "tracker \<Rightarrow> user \<Rightarrow> achievement_ref \<Rightarrow> int \<Rightarrow> int \<Rightarrow> (error + (goal list \<times> emission list)) \<times> tracker"
where
  "tracker_evaluate t u r good_points bad_points =
     (case tracker_mutation t u r (Evaluate good_points bad_points) of
        (Inl e, t') \<Rightarrow> (Inl e, t')
      | (Inr (result, sent, _), t') \<Rightarrow> (Inr (result, sent), t'))"

definition tracker_set_level ::
  "tracker \<Rightarrow> user \<Rightarrow> achievement_ref \<Rightarrow> int \<Rightarrow> (error + (unit \<times> emission list)) \<times> tracker"
where
  "tracker_set_level t u r l =
     (case tracker_mutation t u r (Set_level l) of
        (Inl e, t') \<Rightarrow> (Inl e, t')
      | (Inr (_, sent, _), t') \<Rightarrow> (Inr ((), sent), t'))"

text \<open>The read-only view \<^verbatim>\<open>current\<close> of the tracker.\<close>

definition tracker_current :: "tracker \<Rightarrow> user \<Rightarrow> achievement_ref \<Rightarrow> (error + (int \<times> goal option)) \<times> tracker" where
  "tracker_current t u r =
     (case achievement_for_id t u r of
        (Inl e, t1) \<Rightarrow> (Inl e, t1)
      | (Inr (Loaded _), t1) \<Rightarrow> (Inl AttributeError, t1)
      | (Inr (Instance a), t1) \<Rightarrow> (Inr (current a), t1))"

definition tracker_remove_id :: "tracker \<Rightarrow> user \<Rightarrow> error option \<times> tracker" where
  "tracker_remove_id t u =
     (case backend_remove_id (backend t) u of
        (e, b) \<Rightarrow> (e, t\<lparr>backend := b\<rparr>))"

text \<open>
  The registry is the private list \<^verbatim>\<open>_registry\<close>: it starts empty and only \<^verbatim>\<open>register\<close> and
  \<^verbatim>\<open>unregister\<close> change it. \<open>registry_ok\<close> is what holds of it then: every registered
  definition has a category and none is the base class.
\<close>

definition registry_ok :: "tracker \<Rightarrow> bool" where
  "registry_ok t = (\<forall>d \<in> set (registry t). category d \<noteq> [] \<and> d \<noteq> Achievement)"

subsection \<open>Example data\<close>

text \<open>
  The goals of the threshold example (levels 1 and 100), \<^verbatim>\<open>DiscordAchievement\<close> with these
  goals saved in its settings, a user, a tracker on an empty file with the class
  registered, and the same tracker once the user has reached 100.
\<close>

definition example_goals :: "goal list" where
  "example_goals =
     [\<lparr>level = 1, name = ''first'', description = ''one''\<rparr>,
      \<lparr>level = 100, name = ''second'', description = ''hundred''\<rparr>]"

definition example_class :: achievement_class where
  "example_class = DiscordAchievement (Some example_goals)"

definition example_user :: user where
  "example_user = \<lparr>user_id = ''u1'', server_id = ''s1''\<rparr>"

definition example_tracker :: tracker where
  "example_tracker = \<lparr>registry = [example_class], backend = AchievementBackend_init []\<rparr>"

definition example_accounts :: "int \<Rightarrow> slot dict dict dict" where
  "example_accounts k =
     [(''s1'', [(''u1'', [(''DiscordAchievement'', Instance (Achievement_init example_class k))])])]"

definition example_file :: "json dict dict dict" where
  "example_file = [(''s1'', [(''u1'', [(''DiscordAchievement'', JStr ''D'')])])]"

definition example_tracker_at :: "int \<Rightarrow> tracker" where
  "example_tracker_at k =
     \<lparr>registry = [example_class],
      backend = \<lparr>accounts = example_accounts k, stored = example_file\<rparr>\<rparr>"

text \<open>
  Two receivers whose world is a pair of call counters: the first counts its call and
  raises, the second counts its call and returns its argument plus one. The signal has
  the first connected for any sender and the second for the sender with identity 7.
\<close>

definition failing_receiver :: "(int, nat \<times> nat, int) callable" where
  "failing_receiver =
     \<lparr>target = PyObject 1,
      body = (\<lambda>sender named w. (Raise (Exception ''ValueError''), (Suc (fst w), snd w)))\<rparr>"

definition succeeding_receiver :: "(int, nat \<times> nat, int) callable" where
  "succeeding_receiver =
     \<lparr>target = PyObject 2,
      body = (\<lambda>sender named w. (Return (named + 1), (fst w, Suc (snd w))))\<rparr>"

definition example_signal :: "(int, nat \<times> nat, int) signal" where
  "example_signal =
     connect (connect Signal_init failing_receiver PyNone None) succeeding_receiver (PyObject 7) None"

section \<open>Properties\<close>

lemmas example_defs = example_goals_def example_class_def example_user_def example_tracker_def
  example_accounts_def example_file_def example_tracker_at_def DiscordAchievement_def
  Achievement_def Achievement_init_def

subsection \<open>Goals of an achievement\<close>

lemma sorted_goals_init: "sorted (map level (goals (Achievement_init c k)))"
  by (simp add: Achievement_init_def)

lemma sorted_goals_add_goal: "sorted (map level (goals (add_goal a l n d)))"
  by (simp add: add_goal_def Let_def)

lemma sorted_goals_remove_goal: "sorted (map level (goals (remove_goal a n l)))"
  by (simp add: remove_goal_def Let_def)

lemma filter_le_append_filter_gr:
  fixes k :: int
  shows "sorted (map f xs) \<Longrightarrow> filter (\<lambda>x. k \<ge> f x) xs @ filter (\<lambda>x. k < f x) xs = xs"
proof (induction xs)
  case Nil
  then show ?case by simp
next
  case (Cons x xs)
  show ?case
  proof (cases "k \<ge> f x")
    case True
    with Cons show ?thesis by simp
  next
    case False
    with Cons.prems have "\<forall>y\<in>set xs. \<not> k \<ge> f y" by fastforce
    then have "filter (\<lambda>x. k \<ge> f x) xs = []" "filter (\<lambda>x. k < f x) xs = xs"
      by (auto simp: filter_empty_conv filter_id_conv)
    with False show ?thesis by simp
  qed
qed

text \<open>
  C2. For every achievement and every value \<open>k\<close> of its counter, the achieved and the
  unachieved goals are disjoint and together are the goals of the achievement (as sets, and
  counted with multiplicity); when the goals are sorted by level, as the constructor,
  \<open>add_goal\<close> and \<open>remove_goal\<close> leave them, the achieved goals followed by the unachieved
  ones are the goal list itself, in its order.
\<close>

theorem achieved_unachieved_partition:
  "set (achieved (a\<lparr>p_current := k\<rparr>)) \<inter> set (unachieved (a\<lparr>p_current := k\<rparr>)) = {}
   \<and> set (achieved (a\<lparr>p_current := k\<rparr>)) \<union> set (unachieved (a\<lparr>p_current := k\<rparr>)) = set (goals a)
   \<and> mset (achieved (a\<lparr>p_current := k\<rparr>)) + mset (unachieved (a\<lparr>p_current := k\<rparr>)) = mset (goals a)
   \<and> (sorted (map level (goals a)) \<longrightarrow>
        achieved (a\<lparr>p_current := k\<rparr>) @ unachieved (a\<lparr>p_current := k\<rparr>) = goals a)"
proof -
  have "mset (filter (\<lambda>g. level g \<le> k) xs) + mset (filter (\<lambda>g. k < level g) xs) = mset xs" for xs :: "goal list"
    by (induction xs) auto
  then have ms: "mset (achieved (a\<lparr>p_current := k\<rparr>)) + mset (unachieved (a\<lparr>p_current := k\<rparr>)) = mset (goals a)"
    by (simp add: achieved_def unachieved_def)
  have "sorted (map level (goals a)) \<Longrightarrow>
      achieved (a\<lparr>p_current := k\<rparr>) @ unachieved (a\<lparr>p_current := k\<rparr>) = goals a"
    using filter_le_append_filter_gr [of level "goals a" k]
    by (simp add: achieved_def unachieved_def)
  moreover have "set (achieved (a\<lparr>p_current := k\<rparr>)) \<inter> set (unachieved (a\<lparr>p_current := k\<rparr>)) = {}"
    by (auto simp: achieved_def unachieved_def)
  moreover have "set (achieved (a\<lparr>p_current := k\<rparr>)) \<union> set (unachieved (a\<lparr>p_current := k\<rparr>)) = set (goals a)"
    by (auto simp: achieved_def unachieved_def)
  ultimately show ?thesis using ms by blast
qed

text \<open>The partition at the counter 50 of the example: one goal on each side.\<close>

theorem achieved_unachieved_partition_witness:
  "sorted (map level (goals (Achievement_init example_class 0)))
   \<and> achieved ((Achievement_init example_class 0)\<lparr>p_current := 50\<rparr>) = [\<lparr>level = 1, name = ''first'', description = ''one''\<rparr>]
   \<and> unachieved ((Achievement_init example_class 0)\<lparr>p_current := 50\<rparr>) = [\<lparr>level = 100, name = ''second'', description = ''hundred''\<rparr>]
   \<and> achieved ((Achievement_init example_class 0)\<lparr>p_current := 50\<rparr>)
       @ unachieved ((Achievement_init example_class 0)\<lparr>p_current := 50\<rparr>)
     = goals (Achievement_init example_class 0)"
  using achieved_unachieved_partition [where a = "Achievement_init example_class 0" and k = 50]
  by (simp add: example_defs achieved_def unachieved_def)

text \<open>
  C5. After \<open>add_goal\<close> and after \<open>remove_goal\<close>, whatever the goals were before, the goals
  of the achievement are sorted in ascending order of level.
\<close>

theorem goals_sorted_after_add_remove:
  "sorted (map level (goals (add_goal a l n d)))
   \<and> sorted (map level (goals (remove_goal a n l)))"
  by (simp add: add_goal_def remove_goal_def Let_def)

text \<open>
  C7. \<open>remove_goal a n l\<close> keeps exactly the goals whose name is not \<open>n\<close> and whose level
  is not \<open>l\<close>: a goal is removed as soon as one of the two matches. The goals kept are
  the same with their multiplicities, and stay in their order when the goals were sorted.
\<close>

theorem remove_goal_or_match:
  "mset (goals (remove_goal a n l)) = mset (filter (\<lambda>g. \<not> (name g = n \<or> level g = l)) (goals a))
   \<and> set (goals (remove_goal a n l)) = {g \<in> set (goals a). name g \<noteq> n \<and> level g \<noteq> l}
   \<and> (sorted (map level (goals a)) \<longrightarrow>
        goals (remove_goal a n l) = filter (\<lambda>g. \<not> (name g = n \<or> level g = l)) (goals a))"
proof -
  have "sorted (map level (goals a)) \<Longrightarrow>
      sort_key level (filter (\<lambda>g. \<not> (name g = n \<or> level g = l)) (goals a))
        = filter (\<lambda>g. \<not> (name g = n \<or> level g = l)) (goals a)"
    by (rule sort_key_id_if_sorted) (simp add: sorted_filter)
  moreover have "set (goals (remove_goal a n l)) = {g \<in> set (goals a). name g \<noteq> n \<and> level g \<noteq> l}"
    by (auto simp: remove_goal_def Let_def)
  ultimately show ?thesis
    by (simp add: remove_goal_def Let_def)
qed

text \<open>
  In the example, the name of the first goal with the level of the second removes both;
  the name of the first goal with a level that no goal has removes the first only.
\<close>

theorem remove_goal_or_match_witness:
  "sorted (map level (goals (Achievement_init example_class 0)))
   \<and> goals (remove_goal (Achievement_init example_class 0) ''first'' 100) = []
   \<and> goals (remove_goal (Achievement_init example_class 0) ''first'' 7)
     = [\<lparr>level = 100, name = ''second'', description = ''hundred''\<rparr>]"
  using remove_goal_or_match [of "Achievement_init example_class 0" "''first''" 100]
    remove_goal_or_match [of "Achievement_init example_class 0" "''first''" 7]
  by (simp add: example_defs)

subsection \<open>The registry\<close>

lemma register_loop_append:
  "register_loop t (xs @ ys) =
     (case register_loop t xs of (None, t1) \<Rightarrow> register_loop t1 ys | (Some e, t1) \<Rightarrow> (Some e, t1))"
  by (induction xs arbitrary: t) simp_all

lemma register_loop_snd:
  "fst (register_loop t xs) = None \<Longrightarrow>
     snd (register_loop t xs) = t\<lparr>registry := registry t @ filter (\<lambda>x. x \<noteq> Achievement) xs\<rparr>"
proof (induction xs arbitrary: t)
  case Nil
  then show ?case by simp
next
  case (Cons a xs)
  show ?case
  proof (cases "a = Achievement")
    case True
    with Cons.prems have "fst (register_loop t xs) = None"
      by (simp split: if_splits)
    from Cons.IH [OF this] True Cons.prems show ?thesis
      by (simp split: if_splits)
  next
    case False
    with Cons.prems have p: "fst (register_loop (t\<lparr>registry := registry t @ [a]\<rparr>) xs) = None"
      and q: "category a \<noteq> []" "a \<notin> set (registry t)"
      by (simp_all split: if_splits)
    from Cons.IH [OF p] False q show ?thesis by simp
  qed
qed


lemma register_loop_registry:
  "register_loop t xs = (None, t1) \<Longrightarrow>
     t1 = t\<lparr>registry := registry t @ filter (\<lambda>x. x \<noteq> Achievement) xs\<rparr>"
  using register_loop_snd [of t xs] by simp

lemma registry_ok_init: "registry_ok (AchievementTracker_init f)"
  by (simp add: registry_ok_def AchievementTracker_init_def)

lemma registry_ok_register_loop: "registry_ok t \<Longrightarrow> registry_ok (snd (register_loop t xs))"
proof (induction xs arbitrary: t)
  case Nil
  then show ?case by simp
next
  case (Cons a xs)
  have "category a \<noteq> [] \<Longrightarrow> a \<noteq> Achievement \<Longrightarrow> registry_ok (t\<lparr>registry := registry t @ [a]\<rparr>)"
    using Cons.prems by (simp add: registry_ok_def)
  with Cons show ?case by simp
qed

lemma registry_ok_register: "registry_ok t \<Longrightarrow> registry_ok (snd (register t arg))"
  by (simp add: register_def registry_ok_register_loop)

lemma registry_ok_unregister_loop: "registry_ok t \<Longrightarrow> registry_ok (snd (unregister_loop t xs))"
proof (induction xs arbitrary: t)
  case Nil
  then show ?case by simp
next
  case (Cons a xs)
  have "registry_ok (t\<lparr>registry := remove1 a (registry t)\<rparr>)"
    using Cons.prems notin_set_remove1 [of _ "registry t" a]
    by (fastforce simp: registry_ok_def)
  with Cons show ?case by simp
qed

lemma registry_ok_unregister: "registry_ok t \<Longrightarrow> registry_ok (snd (unregister t arg))"
  by (simp add: unregister_def registry_ok_unregister_loop)

text \<open>
  C4. Registering a definition that the registry holds raises \<^verbatim>\<open>AlreadyRegistered\<close> and
  leaves the tracker as it was; so does registering a second time a definition (other
  than the base class) that was just registered. \<^verbatim>\<open>achievement_for_id\<close> with a reference
  whose name is the name of no registered definition raises \<^verbatim>\<open>NotRegistered\<close>.
\<close>

theorem register_twice_and_unknown_name:
  "(registry_ok t \<and> a \<in> set (registry t) \<longrightarrow> register t (One a) = (Some AlreadyRegistered, t))
   \<and> (register t (One a) = (None, t') \<and> a \<noteq> Achievement \<longrightarrow>
        register t' (One a) = (Some AlreadyRegistered, t'))
   \<and> (ref_name r \<notin> cls_name ` set (registry t) \<longrightarrow>
        achievement_for_id t u r = (Inl NotRegistered, t))"
proof (intro conjI impI)
  assume "registry_ok t \<and> a \<in> set (registry t)"
  then have "category a \<noteq> []" "a \<in> set (registry t)"
    by (simp_all add: registry_ok_def)
  then show "register t (One a) = (Some AlreadyRegistered, t)"
    by (simp add: register_def)
next
  assume h: "register t (One a) = (None, t') \<and> a \<noteq> Achievement"
  then have c: "category a \<noteq> []"
    by (auto simp: register_def split: if_splits)
  from h have "register_loop t [a] = (None, t')" by (simp add: register_def)
  from register_loop_registry [OF this] h have "t' = t\<lparr>registry := registry t @ [a]\<rparr>"
    by simp
  with c show "register t' (One a) = (Some AlreadyRegistered, t')"
    by (simp add: register_def)
next
  assume "ref_name r \<notin> cls_name ` set (registry t)"
  then have "\<forall>c \<in> set (registry t). cls_name c \<noteq> ref_name r"
    by (metis imageI)
  then have "filter (\<lambda>c. cls_name c = ref_name r) (registry t) = []"
    by (simp add: filter_empty_conv)
  then show "achievement_for_id t u r = (Inl NotRegistered, t)"
    by (simp add: achievement_for_id_def)
qed

theorem register_twice_and_unknown_name_witness:
  "registry_ok example_tracker \<and> example_class \<in> set (registry example_tracker)
   \<and> register example_tracker (One example_class) = (Some AlreadyRegistered, example_tracker)
   \<and> register (AchievementTracker_init []) (One example_class) = (None, example_tracker)
   \<and> example_class \<noteq> Achievement
   \<and> ref_name (By_name ''Unknown'') \<notin> cls_name ` set (registry example_tracker)
   \<and> achievement_for_id example_tracker example_user (By_name ''Unknown'')
       = (Inl NotRegistered, example_tracker)"
proof -
  have ne: "example_class \<noteq> Achievement"
    by (simp add: example_defs)
  have ok: "registry_ok example_tracker"
    using ne by (simp add: registry_ok_def example_tracker_def) (simp add: example_defs)
  have m: "example_class \<in> set (registry example_tracker)"
    by (simp add: example_tracker_def)
  have r: "register (AchievementTracker_init []) (One example_class) = (None, example_tracker)"
    using ne by (simp add: register_def AchievementTracker_init_def example_tracker_def)
      (simp add: example_defs)
  have u: "ref_name (By_name ''Unknown'') \<notin> cls_name ` set (registry example_tracker)"
    by (simp add: ref_name_def example_defs)
  from register_twice_and_unknown_name
    [of example_tracker example_class example_tracker "By_name ''Unknown''" example_user]
    register_twice_and_unknown_name
    [of "AchievementTracker_init []" example_class example_tracker "By_name ''Unknown''" example_user]
    ne ok m r u
  show ?thesis by simp
qed

text \<open>
  C9. The base class is not in the registry (\<open>registry_ok\<close>); then registering it, once,
  \<open>n\<close> times in a row or \<open>n\<close> times in one iterable, raises nothing and leaves the tracker,
  and so the registry, as it was.
\<close>

theorem register_base_class:
  assumes "Achievement \<notin> set (registry t)"
  shows "register t (One Achievement) = (None, t)
    \<and> ((\<lambda>s. snd (register s (One Achievement))) ^^ n) t = t
    \<and> register t (Many (replicate n Achievement)) = (None, t)"
proof -
  have c: "category Achievement \<noteq> []" by (simp add: Achievement_def)
  have one: "register t (One Achievement) = (None, t)"
    using assms c by (simp add: register_def)
  have "((\<lambda>s. snd (register s (One Achievement))) ^^ n) t = t"
    by (induction n) (simp_all add: one)
  moreover have "register_loop t (replicate n Achievement) = (None, t)"
    using assms c by (induction n) simp_all
  ultimately show ?thesis using one by (simp add: register_def)
qed

theorem register_base_class_witness:
  "Achievement \<notin> set (registry example_tracker)
   \<and> register example_tracker (One Achievement) = (None, example_tracker)
   \<and> ((\<lambda>s. snd (register s (One Achievement))) ^^ 3) example_tracker = example_tracker
   \<and> register example_tracker (Many (replicate 3 Achievement)) = (None, example_tracker)"
proof -
  have "Achievement \<notin> set (registry example_tracker)"
    by (simp add: example_defs)
  from this register_base_class [OF this, of 3] show ?thesis by simp
qed

text \<open>
  C10. \<^verbatim>\<open>register\<close> on an iterable is not atomic. When the elements \<open>xs\<close> register without
  an error, leaving the tracker \<open>t1\<close>, and the next element \<open>d\<close> has no category or is
  registered already, then registering \<open>xs\<close>, \<open>d\<close> and anything after it raises the error of
  \<open>d\<close> and leaves \<open>t1\<close>: every element of \<open>xs\<close> other than the base class is registered.
\<close>

theorem register_iterable_not_atomic:
  assumes "register t (Many xs) = (None, t1)"
    and "category d = [] \<or> d \<in> set (registry t1)"
  shows "register t (Many (xs @ d # ys))
      = (Some (if category d = [] then ValueError else AlreadyRegistered), t1)
    \<and> registry t1 = registry t @ filter (\<lambda>x. x \<noteq> Achievement) xs
    \<and> (\<forall>x \<in> set xs. x \<noteq> Achievement \<longrightarrow> x \<in> set (registry t1))"
proof -
  from assms(1) have l: "register_loop t xs = (None, t1)" by (simp add: register_def)
  from register_loop_registry [OF l]
  have r: "registry t1 = registry t @ filter (\<lambda>x. x \<noteq> Achievement) xs" by simp
  have "register_loop t1 (d # ys)
      = (Some (if category d = [] then ValueError else AlreadyRegistered), t1)"
    using assms(2) by (cases "category d = []") simp_all
  then have "register_loop t (xs @ d # ys)
      = (Some (if category d = [] then ValueError else AlreadyRegistered), t1)"
    by (simp add: register_loop_append l)
  moreover have "\<forall>x \<in> set xs. x \<noteq> Achievement \<longrightarrow> x \<in> set (registry t1)"
    by (simp add: r)
  ultimately show ?thesis using r by (simp add: register_def)
qed

theorem register_iterable_not_atomic_witness:
  "register (AchievementTracker_init []) (Many [example_class]) = (None, example_tracker)
   \<and> example_class \<in> set (registry example_tracker)
   \<and> register (AchievementTracker_init []) (Many ([example_class] @ example_class # [Achievement]))
       = (Some AlreadyRegistered, example_tracker)
   \<and> registry example_tracker = [example_class]"
proof -
  have ne: "example_class \<noteq> Achievement" "category example_class \<noteq> []"
    by (simp_all add: example_defs)
  have r: "register (AchievementTracker_init []) (Many [example_class]) = (None, example_tracker)"
    using ne by (simp add: register_def AchievementTracker_init_def example_tracker_def)
  have m: "category example_class = [] \<or> example_class \<in> set (registry example_tracker)"
    by (simp add: example_tracker_def)
  from register_iterable_not_atomic [OF r m, of "[Achievement]"] r ne show ?thesis
    by (simp add: example_tracker_def AchievementTracker_init_def)
qed

subsection \<open>Robust sending\<close>

lemma send_robust_loop_receivers:
  "send_robust_loop rs sender named w acc = (Inr responses, w') \<Longrightarrow>
     map fst responses = map fst acc @ rs"
proof (induction rs arbitrary: w acc)
  case Nil
  then show ?case by simp
next
  case (Cons r rs)
  obtain out w1 where b: "body r sender named w = (out, w1)"
    by (cases "body r sender named w")
  show ?case
  proof (cases out)
    case (Return v)
    with Cons.prems b
    have "send_robust_loop rs sender named w1 (acc @ [(r, Value v)]) = (Inr responses, w')"
      by simp
    from Cons.IH [OF this] show ?thesis by simp
  next
    case (Raise x)
    show ?thesis
    proof (cases x)
      case (Exception e)
      with Raise Cons.prems b
      have "send_robust_loop rs sender named w1 (acc @ [(r, Error (Exception e))])
          = (Inr responses, w')"
        by simp
      from Cons.IH [OF this] show ?thesis by simp
    next
      case (BaseException e)
      with Raise Cons.prems b show ?thesis by simp
    qed
  qed
qed

text \<open>
  C8. A signal has two receivers for a sender, \<open>r1\<close> before \<open>r2\<close>; one of them raises an
  \<^verbatim>\<open>Exception\<close> \<open>e\<close> and the other returns \<open>v\<close>, in either order. Then \<open>send_robust\<close> calls
  \<open>r1\<close> once in the state of the world it is given and \<open>r2\<close> once in the state that \<open>r1\<close>
  left, and returns one response for each, in this order: the error \<open>e\<close> for the receiver
  that raised and the value \<open>v\<close> for the one that returned.
\<close>

theorem send_robust_failing_and_succeeding:
  assumes "receivers_for s sender = [r1, r2]"
    and "body r1 sender named w = (out1, w1)"
    and "body r2 sender named w1 = (out2, w2)"
    and "(out1 = Raise (Exception e) \<and> out2 = Return v)
       \<or> (out1 = Return v \<and> out2 = Raise (Exception e))"
  shows "send_robust s sender named w =
      (Inr (if out1 = Return v
            then [(r1, Value v), (r2, Error (Exception e))]
            else [(r1, Error (Exception e)), (r2, Value v)]), w2)"
  using assms by (auto simp: send_robust_def)

text \<open>In the example each of the two call counters goes from 0 to 1.\<close>

theorem send_robust_failing_and_succeeding_witness:
  "receivers_for example_signal (PyObject 7) = [failing_receiver, succeeding_receiver]
   \<and> body failing_receiver (PyObject 7) 41 (0, 0) = (Raise (Exception ''ValueError''), (1, 0))
   \<and> body succeeding_receiver (PyObject 7) 41 (1, 0) = (Return 42, (1, 1))
   \<and> send_robust example_signal (PyObject 7) 41 (0, 0)
       = (Inr [(failing_receiver, Error (Exception ''ValueError'')), (succeeding_receiver, Value 42)],
          (1, 1))"
proof -
  have r: "receivers_for example_signal (PyObject 7) = [failing_receiver, succeeding_receiver]"
    by (simp add: example_signal_def connect_def Signal_init_def lookup_key_def receivers_for_def
        NONE_ID_def Let_def failing_receiver_def succeeding_receiver_def)
  have b1: "body failing_receiver (PyObject 7) 41 (0, 0) = (Raise (Exception ''ValueError''), (1, 0))"
    by (simp add: failing_receiver_def)
  have b2: "body succeeding_receiver (PyObject 7) 41 (1, 0) = (Return 42, (1, 1))"
    by (simp add: succeeding_receiver_def)
  from send_robust_failing_and_succeeding [OF r b1 b2, of "''ValueError''" 42] r b1 b2
  show ?thesis by simp
qed

subsection \<open>The signal check after a mutation\<close>

lemma fst_current: "fst (current a) = p_current a"
  by (simp add: current_def split: list.split)

lemma apply_mutation_goals:
  "goals (snd (apply_mutation a m)) = goals a \<and> cls (snd (apply_mutation a m)) = cls a"
  by (cases m; cases "cls_evaluate (cls a)")
     (simp_all add: apply_mutation_def increment_def set_level_def evaluate_def Let_def)

lemma achieved_changed_iff_new_goals:
  assumes "goals a' = goals a" and "p_current a \<le> p_current a'"
  shows "achieved a' \<noteq> achieved a \<longleftrightarrow> filter (\<lambda>g. g \<notin> set (achieved a)) (achieved a') \<noteq> []"
proof
  assume d: "achieved a' \<noteq> achieved a"
  show "filter (\<lambda>g. g \<notin> set (achieved a)) (achieved a') \<noteq> []"
  proof
    assume "filter (\<lambda>g. g \<notin> set (achieved a)) (achieved a') = []"
    then have "\<forall>g \<in> set (achieved a'). g \<in> set (achieved a)"
      by (simp add: filter_empty_conv)
    then have "\<forall>g \<in> set (goals a). level g \<le> p_current a' \<longrightarrow> level g \<le> p_current a"
      using assms(1) by (simp add: achieved_def)
    with assms(2) have "\<forall>g \<in> set (goals a). (level g \<le> p_current a') = (level g \<le> p_current a)"
      by auto
    then have "filter (\<lambda>g. level g \<le> p_current a') (goals a)
        = filter (\<lambda>g. level g \<le> p_current a) (goals a)"
      by (simp cong: filter_cong)
    with assms(1) d show False by (simp add: achieved_def)
  qed
next
  assume "filter (\<lambda>g. g \<notin> set (achieved a)) (achieved a') \<noteq> []"
  then obtain g where "g \<in> set (achieved a')" "g \<notin> set (achieved a)"
    by (auto simp: filter_empty_conv)
  then show "achieved a' \<noteq> achieved a" by auto
qed

lemma check_signals_goal_achieved:
  assumes "check_signals tid a' old_level old_achieved = (sent, checked)"
  shows "(Goal_achieved x b gs \<in> set sent \<longleftrightarrow>
           old_achieved \<noteq> achieved a' \<and> x = tid \<and> b = a'
           \<and> gs = filter (\<lambda>g. g \<notin> set old_achieved) (achieved a'))"
    and "count_list sent (Goal_achieved tid a' (filter (\<lambda>g. g \<notin> set old_achieved) (achieved a')))
          = (if old_achieved \<noteq> achieved a' then 1 else 0)"
    and "checked = (if old_achieved \<noteq> achieved a'
                    then New_goals (filter (\<lambda>g. g \<notin> set old_achieved) (achieved a'))
                    else PyFalse)"
  using assms by (auto simp: check_signals_def Let_def split: if_splits)

lemma tracker_mutation_Inr:
  assumes "tracker_mutation t u r m = (Inr (result, sent, checked), t')"
  shows "\<exists>a. fst (achievement_for_id t u r) = Inr (Instance a)
      \<and> result = fst (apply_mutation a m)
      \<and> check_signals (user_id u) (snd (apply_mutation a m)) (p_current a) (achieved a)
          = (sent, checked)"
proof -
  obtain res t1 where f: "achievement_for_id t u r = (res, t1)"
    by (cases "achievement_for_id t u r")
  with assms obtain s where s: "res = Inr s"
    by (cases res) (simp_all add: tracker_mutation_def)
  with assms f obtain a where a: "s = Instance a"
    by (cases s) (simp_all add: tracker_mutation_def)
  obtain result' a' where m: "apply_mutation a m = (result', a')"
    by (cases "apply_mutation a m")
  from assms f s a m show ?thesis
    by (auto simp: tracker_mutation_def Let_def fst_current split: prod.splits option.splits)
qed

lemma example_increment_1:
  "tracker_mutation example_tracker example_user (By_class example_class) (Increment 1)
     = (Inr ([],
             [Level_increased ''u1'' (Achievement_init example_class 1),
              Goal_achieved ''u1'' (Achievement_init example_class 1)
                [\<lparr>level = 1, name = ''first'', description = ''one''\<rparr>]],
             New_goals [\<lparr>level = 1, name = ''first'', description = ''one''\<rparr>]),
        example_tracker_at 1)"
  by code_simp

lemma no_new_goals_when_lowered:
  assumes "goals a' = goals a" and "p_current a' \<le> p_current a"
  shows "filter (\<lambda>g. g \<notin> set (achieved a)) (achieved a') = []"
proof -
  have "\<forall>g \<in> set (achieved a'). g \<in> set (achieved a)"
    using assms by (auto simp: achieved_def)
  then show ?thesis by (simp add: filter_empty_conv)
qed

text \<open>
  What the check does after \<^verbatim>\<open>increment\<close>, \<^verbatim>\<open>evaluate\<close> or \<^verbatim>\<open>set_level\<close> of the tracker has run
  without an error, with \<open>a\<close> the instance before the call and \<open>a'\<close> the instance after it
  (the goals are the same): \<^verbatim>\<open>goal_achieved\<close> is sent exactly when the achieved goals of
  \<open>a'\<close> differ from those of \<open>a\<close>, once, for this user and \<open>a'\<close>, with the goals achieved now
  and not before as payload; \<^verbatim>\<open>_check_signals\<close> returns that list then, and \<^verbatim>\<open>False\<close> when
  the achieved goals are unchanged. When the counter has not decreased, the achieved goals
  differ exactly when the list of new goals is not empty; when the counter has not
  increased, the list of new goals is empty.
\<close>

lemma check_after_mutation:
  assumes "tracker_mutation t u r m = (Inr (result, sent, checked), t')"
  shows "\<exists>a a'. fst (achievement_for_id t u r) = Inr (Instance a) \<and> a' = snd (apply_mutation a m)
      \<and> goals a' = goals a
      \<and> (\<forall>x b gs. Goal_achieved x b gs \<in> set sent \<longleftrightarrow>
            achieved a' \<noteq> achieved a \<and> x = user_id u \<and> b = a'
            \<and> gs = filter (\<lambda>g. g \<notin> set (achieved a)) (achieved a'))
      \<and> count_list sent (Goal_achieved (user_id u) a' (filter (\<lambda>g. g \<notin> set (achieved a)) (achieved a')))
          = (if achieved a' \<noteq> achieved a then 1 else 0)
      \<and> checked = (if achieved a' \<noteq> achieved a
                    then New_goals (filter (\<lambda>g. g \<notin> set (achieved a)) (achieved a'))
                    else PyFalse)
      \<and> (p_current a \<le> p_current a' \<longrightarrow>
           (achieved a' \<noteq> achieved a
             \<longleftrightarrow> filter (\<lambda>g. g \<notin> set (achieved a)) (achieved a') \<noteq> []))
      \<and> (p_current a' \<le> p_current a \<longrightarrow>
           filter (\<lambda>g. g \<notin> set (achieved a)) (achieved a') = [])"
proof -
  from tracker_mutation_Inr [OF assms] obtain a where
    f: "fst (achievement_for_id t u r) = Inr (Instance a)" and
    c: "check_signals (user_id u) (snd (apply_mutation a m)) (p_current a) (achieved a)
          = (sent, checked)"
    by blast
  define a' where "a' = snd (apply_mutation a m)"
  have g: "goals a' = goals a"
    by (simp add: a'_def apply_mutation_goals)
  have ne: "(achieved a \<noteq> achieved a') = (achieved a' \<noteq> achieved a)"
    by auto
  note cs = check_signals_goal_achieved [OF c [folded a'_def], unfolded ne]
  have "p_current a \<le> p_current a' \<longrightarrow>
           (achieved a' \<noteq> achieved a
             \<longleftrightarrow> filter (\<lambda>g. g \<notin> set (achieved a)) (achieved a') \<noteq> [])"
    using achieved_changed_iff_new_goals [OF g] by blast
  moreover have "p_current a' \<le> p_current a \<longrightarrow>
           filter (\<lambda>g. g \<notin> set (achieved a)) (achieved a') = []"
    using no_new_goals_when_lowered [OF g] by blast
  ultimately show ?thesis using f g cs a'_def
    by blast
qed

lemma example_reach_100:
  "tracker_increment example_tracker example_user (By_class example_class) 100
     = (Inr (New_goals example_goals,
             [Level_increased ''u1'' (Achievement_init example_class 100),
              Goal_achieved ''u1'' (Achievement_init example_class 100) example_goals,
              Highest_level_achieved ''u1'' (Achievement_init example_class 100)]),
        example_tracker_at 100)"
  by code_simp

text \<open>
  C3. After a mutation of the tracker, \<^verbatim>\<open>goal_achieved\<close> is to be sent exactly when some goal
  is newly achieved, with the new goals, and the check is to return them, or \<^verbatim>\<open>False\<close> when
  there is none; the docstring of \<^verbatim>\<open>increment\<close> says the same of what it returns: a list of
  achieved goals if a new goal was reached, or \<^verbatim>\<open>False\<close>. The code does not do so when the
  counter falls below the level of an achieved goal. The user of the example has reached
  100, so both goals are achieved; \<^verbatim>\<open>increment\<close> by -1 and \<^verbatim>\<open>set_level\<close> to 50 leave the first
  goal achieved and reach no new goal, and yet \<^verbatim>\<open>goal_achieved\<close> is sent, with the empty
  list, which \<^verbatim>\<open>_check_signals\<close> and \<^verbatim>\<open>increment\<close> return in place of \<^verbatim>\<open>False\<close>.
\<close>

theorem goal_achieved_sent_without_new_goal:
  "tracker_increment (example_tracker_at 100) example_user (By_class example_class) (- 1)
     = (Inr (New_goals [], [Goal_achieved ''u1'' (Achievement_init example_class 99) []]),
        example_tracker_at 99)
   \<and> tracker_set_level (example_tracker_at 100) example_user (By_class example_class) 50
     = (Inr ((), [Goal_achieved ''u1'' (Achievement_init example_class 50) []]),
        example_tracker_at 50)
   \<and> tracker_mutation (example_tracker_at 100) example_user (By_class example_class) (Set_level 50)
     = (Inr ([], [Goal_achieved ''u1'' (Achievement_init example_class 50) []], New_goals []),
        example_tracker_at 50)
   \<and> achieved (Achievement_init example_class 100) = example_goals
   \<and> achieved (Achievement_init example_class 99)
     = [\<lparr>level = 1, name = ''first'', description = ''one''\<rparr>]
   \<and> achieved (Achievement_init example_class 50)
     = [\<lparr>level = 1, name = ''first'', description = ''one''\<rparr>]"
  by code_simp

lemma tracker_increment_sent:
  "tracker_increment t u r amount = (Inr (checked, sent), t') \<longleftrightarrow>
     (\<exists>result. tracker_mutation t u r (Increment amount) = (Inr (result, sent, checked), t'))"
  by (auto simp: tracker_increment_def split: prod.splits sum.splits)

lemma tracker_evaluate_sent:
  "tracker_evaluate t u r good_points bad_points = (Inr (result, sent), t') \<longleftrightarrow>
     (\<exists>checked. tracker_mutation t u r (Evaluate good_points bad_points)
        = (Inr (result, sent, checked), t'))"
  by (auto simp: tracker_evaluate_def split: prod.splits sum.splits)

lemma tracker_set_level_sent:
  "tracker_set_level t u r l = (Inr ((), sent), t') \<longleftrightarrow>
     (\<exists>result checked. tracker_mutation t u r (Set_level l) = (Inr (result, sent, checked), t'))"
  by (auto simp: tracker_set_level_def split: prod.splits sum.splits)

subsection \<open>Removing a subject\<close>

lemma backend_remove_id_existing:
  assumes "map_of (accounts b) (server_id u) = Some users" and "map_of users (user_id u) = Some st"
  shows "backend_remove_id b u = (Some NameError, b)"
  using assms by (simp add: backend_remove_id_def)

lemma tracker_remove_id_existing:
  assumes "map_of (accounts (backend t)) (server_id u) = Some users"
    and "map_of users (user_id u) = Some st"
  shows "tracker_remove_id t u = (Some NameError, t)"
  using backend_remove_id_existing [OF assms] by (simp add: tracker_remove_id_def)

text \<open>
  C6. \<^verbatim>\<open>remove_id\<close> of the tracker for the user of the example, whose state exists:
  \<^verbatim>\<open>NameError\<close>, and the tracker with the state of the user is as it was.
\<close>

theorem remove_id_deletes_nothing:
  "tracker_remove_id (example_tracker_at 5) example_user = (Some NameError, example_tracker_at 5)
   \<and> lookup3 (accounts (backend (example_tracker_at 5))) ''s1'' ''u1'' ''DiscordAchievement''
       = Inr (Instance (Achievement_init example_class 5))"
  by code_simp

subsection \<open>Saving and loading\<close>

text \<open>What \<^verbatim>\<open>_save_loyalty\<close> writes does not depend on what the accounts hold under the names.\<close>

lemma save_achievements_values:
  "save_achievements (map (\<lambda>(k, v). (k, g v)) d) to_save = save_achievements d to_save"
  by (induction d arbitrary: to_save) (auto split: list.splits)

lemma save_users_values:
  "save_users (map (\<lambda>(k, d). (k, map (\<lambda>(k', v). (k', g v)) d)) us) to_save = save_users us to_save"
  by (induction us arbitrary: to_save) (auto simp: save_achievements_values split: sum.splits)

lemma save_servers_values:
  "save_servers
     (map (\<lambda>(k, us). (k, map (\<lambda>(k', d). (k', map (\<lambda>(k'', v). (k'', g v)) d)) us)) accs) to_save
   = save_servers accs to_save"
  by (induction accs arbitrary: to_save) (auto simp: save_users_values split: sum.splits)

lemma save_example_accounts:
  "save_loyalty \<lparr>accounts = example_accounts k, stored = f\<rparr>
     = (None, \<lparr>accounts = example_accounts k, stored = example_file\<rparr>)"
  by (simp add: save_loyalty_def example_accounts_def example_file_def)

text \<open>
  C1. The user of the example is at 5. Saving leaves in the file the first character of
  the definition name; a backend created on this file holds that string and no instance,
  so that the tracker cannot read \<^verbatim>\<open>current\<close> from it, and \<^verbatim>\<open>_load_loyalty\<close> on this file
  raises \<^verbatim>\<open>KeyError\<close>.
\<close>

theorem save_reload_loses_progress:
  "fst (tracker_current (example_tracker_at 5) example_user (By_class example_class))
     = Inr (5, Some \<lparr>level = 100, name = ''second'', description = ''hundred''\<rparr>)
   \<and> save_loyalty (backend (example_tracker_at 5)) = (None, backend (example_tracker_at 5))
   \<and> stored (backend (example_tracker_at 5)) = [(''s1'', [(''u1'', [(''DiscordAchievement'', JStr ''D'')])])]
   \<and> accounts (AchievementBackend_init (stored (backend (example_tracker_at 5))))
       = [(''s1'', [(''u1'', [(''DiscordAchievement'', Loaded (JStr ''D''))])])]
   \<and> fst (tracker_current
           \<lparr>registry = [example_class],
            backend = AchievementBackend_init (stored (backend (example_tracker_at 5)))\<rparr>
           example_user (By_class example_class))
       = Inl AttributeError
   \<and> fst (load_loyalty (AchievementBackend_init []) (stored (backend (example_tracker_at 5)))
           example_class)
       = Some KeyError"
  by code_simp

end
